theory Spec2Isabelle
  imports Complex_Main "HOL-Library.Product_Lexorder"
begin

section \<open>Trending items: the decayed rolling z-score of \<^verbatim>\<open>trending.py\<close>\<close>

text \<open>
  The embedding follows \<^verbatim>\<open>src/trending.py\<close>. A Python number, \<^verbatim>\<open>int\<close> or \<^verbatim>\<open>float\<close>, is the
  real number it denotes: an integer, or a finite IEEE-754 binary64 value. Every floating
  point operation is the exact operation followed by the rounding \<open>fl\<close> to the nearest
  binary64 value, ties to the even significand, as the hardware does it. Every exception
  the source can raise on the modelled paths is a value of \<open>py_error\<close>, returned as \<open>Inl\<close>.
  An operation that raises no exception but whose result is not finite ends the run of the
  model with \<open>NonFiniteFloat\<close>: what Python goes on to do with \<^verbatim>\<open>inf\<close> and \<^verbatim>\<open>nan\<close> is not
  modelled, and no statement below rests on that outcome.
\<close>

subsection \<open>Python primitives\<close>

datatype py_error =
  IndexError | ValueError | KeyError | TypeError | AttributeError | ZeroDivisionError
  | OverflowError | NonFiniteFloat

text \<open>Sequencing: the first exception ends the computation.\<close>

definition bnd :: "py_error + 'a \<Rightarrow> ('a \<Rightarrow> py_error + 'b) \<Rightarrow> py_error + 'b" where
  "bnd m f = (case m of Inl e \<Rightarrow> Inl e | Inr x \<Rightarrow> f x)"

text \<open>Python 3 \<^verbatim>\<open>round(x)\<close> with one argument: the nearest integer, a tie goes to the
  even neighbour.\<close>

definition py_round :: "real \<Rightarrow> int" where
  "py_round x =
     (let f = \<lfloor>x\<rfloor>; r = x - of_int f
      in if r < 1 / 2 then f
         else if 1 / 2 < r then f + 1
         else if even f then f else f + 1)"

subsection \<open>Binary64 arithmetic\<close>

definition pow2 :: "int \<Rightarrow> real" where
  "pow2 e = (if 0 \<le> e then 2 ^ nat e else 1 / 2 ^ nat (- e))"

text \<open>
  The exponent of the spacing of the binary64 values around \<open>x\<close>: a value whose magnitude
  lies between \<open>pow2 e\<close> and \<open>pow2 (e + 1)\<close> has a significand of 53 bits, so the spacing
  there is \<open>pow2 (e - 52)\<close>; below the normal range the spacing stays at \<open>pow2 (- 1074)\<close>.
\<close>

definition quantum_exp :: "real \<Rightarrow> int" where
  "quantum_exp x = max (\<lfloor>log 2 \<bar>x\<bar>\<rfloor> - 52) (- 1074)"

text \<open>Rounding to the nearest binary64 value, ties to even, the exponent range not yet
  limited: the magnitude is rounded to a multiple of the spacing, the sign is kept.\<close>

definition fl :: "real \<Rightarrow> real" where
  "fl x = sgn x * (of_int (py_round (\<bar>x\<bar> / pow2 (quantum_exp x))) * pow2 (quantum_exp x))"

text \<open>The largest finite binary64 value. A rounded result above it is infinite.\<close>

definition max_float :: real where
  "max_float = (2 ^ 53 - 1) * 2 ^ 971"

definition finite_or :: "py_error \<Rightarrow> real \<Rightarrow> py_error + real" where
  "finite_or e x = (let y = fl x in if max_float < \<bar>y\<bar> then Inl e else Inr y)"

text \<open>
  \<^verbatim>\<open>float(x)\<close>, and the conversion of an \<^verbatim>\<open>int\<close> operand that meets a \<^verbatim>\<open>float\<close> in an
  arithmetic operation: the nearest binary64 value, \<^verbatim>\<open>OverflowError\<close> when the integer is
  too large. On a \<^verbatim>\<open>float\<close> it is the identity.
\<close>

definition py_float :: "real \<Rightarrow> py_error + real" where
  "py_float x = finite_or OverflowError x"

text \<open>\<^verbatim>\<open>x + y\<close>, \<^verbatim>\<open>x - y\<close> and \<^verbatim>\<open>x * y\<close> on floats: no exception, an overflow gives
  \<^verbatim>\<open>inf\<close>.\<close>

definition fadd :: "real \<Rightarrow> real \<Rightarrow> py_error + real" where
  "fadd x y = finite_or NonFiniteFloat (x + y)"

definition fsub :: "real \<Rightarrow> real \<Rightarrow> py_error + real" where
  "fsub x y = finite_or NonFiniteFloat (x - y)"

definition fmul :: "real \<Rightarrow> real \<Rightarrow> py_error + real" where
  "fmul x y = finite_or NonFiniteFloat (x * y)"

text \<open>
  \<^verbatim>\<open>x ** 2\<close> as a float. For a \<^verbatim>\<open>float\<close> \<open>x\<close> the power is the correctly rounded square
  and raises \<^verbatim>\<open>OverflowError\<close> when it overflows; for an \<^verbatim>\<open>int\<close> \<open>x\<close> the square is exact
  and its conversion to \<^verbatim>\<open>float\<close> rounds once and raises \<^verbatim>\<open>OverflowError\<close> when it is
  too large.
\<close>

definition fsquare :: "real \<Rightarrow> py_error + real" where
  "fsquare x = finite_or OverflowError (x * x)"

text \<open>Float division \<^verbatim>\<open>x / y\<close> raises \<^verbatim>\<open>ZeroDivisionError\<close> when the divisor is zero.\<close>

definition py_truediv :: "real \<Rightarrow> real \<Rightarrow> py_error + real" where
  "py_truediv x y =
     (if y = 0 then Inl ZeroDivisionError else finite_or NonFiniteFloat (x / y))"

text \<open>\<^verbatim>\<open>math.sqrt\<close> raises \<^verbatim>\<open>ValueError\<close> (math domain error) on a negative argument and
  returns the correctly rounded root otherwise.\<close>

definition py_sqrt :: "real \<Rightarrow> py_error + real" where
  "py_sqrt x = (if x < 0 then Inl ValueError else Inr (fl (sqrt x)))"

subsection \<open>The engine: \<^verbatim>\<open>rolling_zscore\<close>\<close>

text \<open>
  \<^verbatim>\<open>
  def add_to_history(point, average, sq_average):
      average = average * decay + point * (1 - decay)
      sq_average = sq_average * decay + (point ** 2) * (1 - decay)
      return average, sq_average
  \<close>
  \<open>decay\<close> is a free variable of the nested function (the parameter of
  \<^verbatim>\<open>rolling_zscore\<close>); it is passed explicitly. It is a \<^verbatim>\<open>float\<close>, as the default \<^verbatim>\<open>0.1\<close> and
  the call in \<^verbatim>\<open>app\<close> are: the literal \<^verbatim>\<open>0.1\<close> denotes the binary64 value nearest to one
  tenth, which is what \<open>py_float\<close> makes of \<open>1 / 10\<close>. \<open>average\<close> and \<open>sq_average\<close> are floats;
  \<open>point\<close> is an \<^verbatim>\<open>int\<close> (from \<^verbatim>\<open>zvalue\<close>) or a \<^verbatim>\<open>float\<close>.
\<close>

definition add_to_history ::
  "real \<Rightarrow> real \<Rightarrow> real \<Rightarrow> real \<Rightarrow> py_error + real \<times> real" where
  "add_to_history decay point average sq_average =
     bnd (py_float decay) (\<lambda>d.
     bnd (fmul average d) (\<lambda>t1.
     bnd (fsub 1 d) (\<lambda>w1.
     bnd (py_float point) (\<lambda>p.
     bnd (fmul p w1) (\<lambda>t2.
     bnd (fadd t1 t2) (\<lambda>average'.
     bnd (fmul sq_average d) (\<lambda>s1.
     bnd (fsquare point) (\<lambda>p2.
     bnd (fsub 1 d) (\<lambda>w2.
     bnd (fmul p2 w2) (\<lambda>s2.
     bnd (fadd s1 s2) (\<lambda>sq_average'.
     Inr (average', sq_average'))))))))))))"

text \<open>
  \<^verbatim>\<open>
  def calculate_zscore(average, sq_average, value):
      std = round(sqrt(sq_average - avg ** 2))
      if std == 0:
          return value - average
      return (value - average) / std
  \<close>
  \<^verbatim>\<open>avg\<close> is not a parameter: it is the variable \<^verbatim>\<open>avg\<close> of the enclosing
  \<^verbatim>\<open>rolling_zscore\<close>, read through the closure when the call is made. The model takes the
  value that variable holds at the call as its first argument. \<open>std\<close> is an \<^verbatim>\<open>int\<close>,
  converted to \<^verbatim>\<open>float\<close> by the division.
\<close>

definition calculate_zscore :: "real \<Rightarrow> real \<Rightarrow> real \<Rightarrow> real \<Rightarrow> py_error + real" where
  "calculate_zscore avg average sq_average v =
     bnd (fsquare avg) (\<lambda>avg2.
     bnd (fsub sq_average avg2) (\<lambda>var.
     bnd (py_sqrt var) (\<lambda>s.
       (let std = py_round s
        in if std = 0 then
             bnd (py_float v) (\<lambda>value. fsub value average)
           else
             bnd (py_float v) (\<lambda>value.
             bnd (fsub value average) (\<lambda>diff.
             bnd (py_float (of_int std)) (\<lambda>sd.
             py_truediv diff sd)))))))"

text \<open>\<^verbatim>\<open>for point in data[1:]: avg, squared_average = add_to_history(point, avg, squared_average)\<close>\<close>

fun absorb :: "real \<Rightarrow> real list \<Rightarrow> real \<times> real \<Rightarrow> py_error + real \<times> real" where
  "absorb decay [] st = Inr st"
| "absorb decay (point # rest) (avg, squared_average) =
     bnd (add_to_history decay point avg squared_average) (absorb decay rest)"

text \<open>
  \<^verbatim>\<open>
  for point in observed_window:
      trends.append(calculate_zscore(avg, squared_average, point))
      avg, squared_average = add_to_history(point, avg, squared_average)
  \<close>
  At the call the enclosing \<^verbatim>\<open>avg\<close> holds the running mean, which is also the argument
  \<^verbatim>\<open>average\<close>. The first exception ends the loop.
\<close>

fun score_window :: "real \<Rightarrow> real list \<Rightarrow> real \<times> real \<Rightarrow> py_error + real list" where
  "score_window decay [] st = Inr []"
| "score_window decay (point # rest) (avg, squared_average) =
     bnd (calculate_zscore avg avg squared_average point) (\<lambda>z.
     bnd (add_to_history decay point avg squared_average) (\<lambda>st.
     bnd (score_window decay rest st) (\<lambda>zs.
     Inr (z # zs))))"

text \<open>
  \<^verbatim>\<open>
  avg = float(data[0])
  squared_average = float(data[0] ** 2)
  \<close>
  and the two loops: the list \<^verbatim>\<open>trends\<close> that \<^verbatim>\<open>rolling_zscore\<close> has built when it reaches
  its \<^verbatim>\<open>return\<close>. \<^verbatim>\<open>data[0]\<close> raises \<^verbatim>\<open>IndexError\<close> on an empty history.
\<close>

definition trends :: "real list \<Rightarrow> real list \<Rightarrow> real \<Rightarrow> py_error + real list" where
  "trends history observed_window decay =
     (case history of
        [] \<Rightarrow> Inl IndexError
      | d0 # rest \<Rightarrow>
          bnd (py_float d0) (\<lambda>avg.
          bnd (fsquare d0) (\<lambda>squared_average.
          bnd (absorb decay rest (avg, squared_average)) (\<lambda>st.
          score_window decay observed_window st))))"

text \<open>
  \<^verbatim>\<open>sum(trends)\<close>: the additions from left to right, starting from the integer 0. From
  Python 3.12 on, \<^verbatim>\<open>sum\<close> adds floats with a compensated sum, which can differ from this in
  the last place on a list of two or more scores; on a list of one score both return that
  score. The properties of \<open>rolling_zscore\<close> stated below concern windows of one observed
  value, or runs that raise before the sum is reached.
\<close>

fun py_sum :: "real \<Rightarrow> real list \<Rightarrow> py_error + real" where
  "py_sum acc [] = Inr acc"
| "py_sum acc (t # ts) = bnd (fadd acc t) (\<lambda>acc'. py_sum acc' ts)"

text \<open>\<^verbatim>\<open>return sum(trends) / len(trends) if len(trends) != 0 else 0\<close>\<close>

definition rolling_zscore :: "real list \<Rightarrow> real list \<Rightarrow> real \<Rightarrow> py_error + real" where
  "rolling_zscore history observed_window decay =
     bnd (trends history observed_window decay) (\<lambda>ts.
       if length ts \<noteq> 0 then
         bnd (py_sum 0 ts) (\<lambda>total.
         bnd (py_float (real (length ts))) (\<lambda>n.
         py_truediv total n))
       else Inr 0)"

text \<open>
  The reading of the specification, section 4.3: the variance term subtracts the square of
  the seed (the first history element) at every observed point. The loop is the one above
  with the seed in place of the running mean in the first argument of
  \<open>calculate_zscore\<close>.
\<close>

fun seed_score_window ::
  "real \<Rightarrow> real \<Rightarrow> real list \<Rightarrow> real \<times> real \<Rightarrow> py_error + real list" where
  "seed_score_window seed decay [] st = Inr []"
| "seed_score_window seed decay (point # rest) (avg, squared_average) =
     bnd (calculate_zscore seed avg squared_average point) (\<lambda>z.
     bnd (add_to_history decay point avg squared_average) (\<lambda>st.
     bnd (seed_score_window seed decay rest st) (\<lambda>zs.
     Inr (z # zs))))"

definition seed_trends :: "real list \<Rightarrow> real list \<Rightarrow> real \<Rightarrow> py_error + real list" where
  "seed_trends history observed_window decay =
     (case history of
        [] \<Rightarrow> Inl IndexError
      | d0 # rest \<Rightarrow>
          bnd (py_float d0) (\<lambda>avg.
          bnd (fsquare d0) (\<lambda>squared_average.
          bnd (absorb decay rest (avg, squared_average)) (\<lambda>st.
          seed_score_window avg decay observed_window st))))"

subsection \<open>The \<^verbatim>\<open>trend\<close> object and the aggregated table\<close>

text \<open>
  A row of the input table, as \<^verbatim>\<open>load_data\<close> reads it: \<^verbatim>\<open>item_id\<close>, \<^verbatim>\<open>user_id\<close> (an
  empty field is a missing value, \<open>None\<close>) and \<^verbatim>\<open>interaction_time\<close> after
  \<^verbatim>\<open>pd.to_datetime\<close>, in seconds since the epoch. The column \<^verbatim>\<open>interaction_type\<close> is
  never read. Rows with a missing item or an unparseable time are outside the model.
\<close>

record event =
  item_id :: nat
  user_id :: "nat option"
  interaction_time :: int

text \<open>A row of \<^verbatim>\<open>df_group\<close>: the columns \<^verbatim>\<open>item_id\<close>, \<^verbatim>\<open>lag\<close> (named \<^verbatim>\<open>diff\<close> before
  the rename) and \<^verbatim>\<open>user_count\<close>.\<close>

record group_row =
  g_item_id :: nat
  lag :: int
  user_count :: int

text \<open>\<^verbatim>\<open>self.max_length\<close> is \<^verbatim>\<open>None\<close> after \<^verbatim>\<open>__init__\<close>; \<^verbatim>\<open>-data['diff'].min()\<close> is
  NaN on an empty column and an integer otherwise.\<close>

datatype max_len = PyNone | NaN | IntLen int

text \<open>The attributes \<^verbatim>\<open>item_list\<close> and \<^verbatim>\<open>data\<close> exist only once \<^verbatim>\<open>load_data\<close> has
  run (\<open>None\<close>: reading them raises \<^verbatim>\<open>AttributeError\<close>).\<close>

record trend =
  max_length :: max_len
  decay :: real
  int_days :: int
  item_list :: "nat list option"
  data :: "group_row list option"

text \<open>
  \<^verbatim>\<open>
  def __init__(self,decay=0.1,interval_days=7):
      self.max_length=None
      self.decay=decay
      self.int_days=interval_days
  \<close>
  The constructor checks nothing, so the model has no \<open>Inl\<close> branch.
\<close>

definition trend_init :: "real \<Rightarrow> int \<Rightarrow> py_error + trend" where
  "trend_init decay_arg interval_days =
     Inr \<lparr>max_length = PyNone, decay = decay_arg, int_days = interval_days,
          item_list = None, data = None\<rparr>"

subsection \<open>The Event Aggregator: \<^verbatim>\<open>load_data\<close>\<close>

text \<open>
  \<^verbatim>\<open>(data[interaction_time] - pd.datetime.now().date()).dt.days\<close>: the whole days (rounded
  down) between midnight of the day the wall clock shows and the event. \<open>now\<close> is what
  \<^verbatim>\<open>pd.datetime.now()\<close> returns, in seconds since the epoch.
\<close>

definition days_since :: "int \<Rightarrow> int \<Rightarrow> int" where
  "days_since now t = (t - (now div 86400) * 86400) div 86400"

text \<open>\<^verbatim>\<open>(x / n).astype(int)\<close> for a non-zero \<open>n\<close>: the quotient cut toward zero.\<close>

definition trunc_div :: "int \<Rightarrow> int \<Rightarrow> int" where
  "trunc_div x n = sgn x * sgn n * (\<bar>x\<bar> div \<bar>n\<bar>)"

definition diff_of :: "int \<Rightarrow> int \<Rightarrow> event \<Rightarrow> int" where
  "diff_of now n e = trunc_div (days_since now (interaction_time e)) n"

text \<open>
  \<^verbatim>\<open>data.groupby([item_col, 'diff'])[user_col].count().reset_index(name='user_count')\<close>:
  one row for each pair (item, diff) that occurs, in ascending order of the pair, holding
  the number of rows of the group whose \<^verbatim>\<open>user_id\<close> is not missing.
\<close>

definition groupby_count :: "(event \<Rightarrow> int) \<Rightarrow> event list \<Rightarrow> group_row list" where
  "groupby_count diff df =
     map (\<lambda>(i, l).
            \<lparr>g_item_id = i, lag = l,
             user_count =
               int (length (filter (\<lambda>e. item_id e = i \<and> diff e = l \<and> user_id e \<noteq> None) df))\<rparr>)
         (sort (remdups (map (\<lambda>e. (item_id e, diff e)) df)))"

text \<open>\<^verbatim>\<open>Series.unique()\<close>: the distinct values in order of first appearance.\<close>

definition unique :: "'a list \<Rightarrow> 'a list" where
  "unique xs = rev (remdups (rev xs))"

text \<open>
  \<^verbatim>\<open>
  data = data.sort_values([interaction_time])
  today = pd.datetime.now()
  data['diff']=(((data[interaction_time] - pd.datetime.now().date()).dt.days) / self.int_days).astype(int)
  self.max_length = -data['diff'].min()
  df_group = data.groupby([item_col, 'diff'])[user_col].count().reset_index(name='user_count')
  self.item_list = df_group[item_col].unique()
  df_group.rename(columns={'diff': 'lag'}, inplace=True)
  self.data = df_group
  \<close>
  \<open>csv\<close> is the table \<^verbatim>\<open>pd.read_csv\<close> returns. \<^verbatim>\<open>today\<close> is never used; the clock is read
  again for the date. A zero \<^verbatim>\<open>int_days\<close> makes every quotient infinite or NaN, and
  \<^verbatim>\<open>astype(int)\<close> raises \<^verbatim>\<open>ValueError\<close> on such a value.
\<close>

definition load_data :: "trend \<Rightarrow> event list \<Rightarrow> int \<Rightarrow> py_error + trend" where
  "load_data self csv now =
     (let df = sort_key interaction_time csv;
          n = int_days self
      in if df \<noteq> [] \<and> n = 0 then Inl ValueError
         else
           (let diff = diff_of now n;
                m = (if df = [] then NaN else IntLen (- Min (set (map diff df))));
                df_group = groupby_count diff df
            in Inr (self\<lparr>max_length := m,
                         item_list := Some (unique (map g_item_id df_group)),
                         data := Some df_group\<rparr>)))"

subsection \<open>The Lag Vector Builder: \<^verbatim>\<open>zvalue\<close>\<close>

text \<open>The score of an item: \<^verbatim>\<open>-np.inf\<close> or a finite float.\<close>

datatype score = NegInf | Fin real

text \<open>\<^verbatim>\<open>vec[i] = x\<close> on a Python list: a negative index counts from the end, an index out
  of range raises \<^verbatim>\<open>IndexError\<close>.\<close>

definition py_setitem :: "'a list \<Rightarrow> int \<Rightarrow> 'a \<Rightarrow> py_error + 'a list" where
  "py_setitem xs i x =
     (let n = int (length xs); j = (if i < 0 then i + n else i)
      in if 0 \<le> j \<and> j < n then Inr (xs[nat j := x]) else Inl IndexError)"

text \<open>\<^verbatim>\<open>for i,j in zip(loc,range(len(value))): vec[i]=value[j]\<close>\<close>

fun fill :: "int list \<Rightarrow> (int \<times> int) list \<Rightarrow> py_error + int list" where
  "fill vec [] = Inr vec"
| "fill vec ((i, x) # rest) =
     (case py_setitem vec i x of
        Inl e \<Rightarrow> Inl e
      | Inr vec' \<Rightarrow> fill vec' rest)"

text \<open>\<^verbatim>\<open>vec[-1:]\<close>: the last element as a list, empty on an empty list.\<close>

definition last_slice :: "'a list \<Rightarrow> 'a list" where
  "last_slice xs = (if xs = [] then [] else [last xs])"

text \<open>
  \<^verbatim>\<open>
  vec=[0]*(length+1)
  df_filtered = df[df['item_id'] == item]
  if len(df_filtered)==1:
      z_value=-np.inf
  else:
      loc=[length+i for i in df_filtered.lag.tolist()]
      value=df_filtered.user_count.tolist()
      for i,j in zip(loc,range(len(value))):
          vec[i]=value[j]
      z_value=self.rolling_zscore(vec[:-1],vec[-1:],decay=self.decay)
  return z_value
  \<close>
  \<^verbatim>\<open>[0]*k\<close> is empty for \<open>k \<le> 0\<close> and raises \<^verbatim>\<open>TypeError\<close> when \<open>k\<close> is not an integer.
  \<open>lag_vector\<close> is the vector \<^verbatim>\<open>vec\<close> after the loop: the allocation and the writes of the
  \<^verbatim>\<open>else\<close> branch (the allocation cannot fail once \<^verbatim>\<open>length\<close> is an integer, and the
  other branch never reads \<^verbatim>\<open>vec\<close>).
\<close>

definition lag_vector :: "int \<Rightarrow> group_row list \<Rightarrow> py_error + int list" where
  "lag_vector n df_filtered =
     (let vec = replicate (nat (n + 1)) (0::int);
          loc = map (\<lambda>r. n + lag r) df_filtered;
          val = map user_count df_filtered
      in fill vec (zip loc val))"

definition zvalue :: "trend \<Rightarrow> group_row list \<Rightarrow> nat \<Rightarrow> max_len \<Rightarrow> py_error + score" where
  "zvalue self df it len =
     (case len of
        IntLen n \<Rightarrow>
          (let df_filtered = filter (\<lambda>r. g_item_id r = it) df
           in if length df_filtered = 1 then Inr NegInf
              else
                (case lag_vector n df_filtered of
                   Inl e \<Rightarrow> Inl e
                 | Inr vec \<Rightarrow>
                     (case rolling_zscore (map real_of_int (butlast vec))
                             (map real_of_int (last_slice vec)) (decay self) of
                        Inl e \<Rightarrow> Inl e
                      | Inr z \<Rightarrow> Inr (Fin z))))
      | _ \<Rightarrow> Inl TypeError)"

subsection \<open>The Ranking Aggregator: \<^verbatim>\<open>calc\<close>\<close>

record trend_row =
  item :: nat
  trending_score :: score

fun score_less :: "score \<Rightarrow> score \<Rightarrow> bool" where
  "score_less NegInf (Fin y) = True"
| "score_less (Fin x) (Fin y) = (x < y)"
| "score_less s NegInf = False"

text \<open>
  \<^verbatim>\<open>df_trend.sort_values("trending_score", ascending=False)\<close>: the rows in descending
  order of the score. The source leaves the order of rows with equal scores to the sorting
  routine; the model keeps them in their order of insertion.
\<close>

fun insert_desc :: "trend_row \<Rightarrow> trend_row list \<Rightarrow> trend_row list" where
  "insert_desc r [] = [r]"
| "insert_desc r (x # xs) =
     (if score_less (trending_score r) (trending_score x) then x # insert_desc r xs
      else r # x # xs)"

definition sort_values_desc :: "trend_row list \<Rightarrow> trend_row list" where
  "sort_values_desc rows = foldr insert_desc rows []"

text \<open>
  \<^verbatim>\<open>
  for item in self.item_list:
      _score = self.zvalue(self.data, item, length=self.max_length)
      df_trend.append({'item': item, 'trending_score': _score})
  \<close>
\<close>

fun calc_loop :: "trend \<Rightarrow> group_row list \<Rightarrow> nat list \<Rightarrow> py_error + trend_row list" where
  "calc_loop self df [] = Inr []"
| "calc_loop self df (it # items) =
     (case zvalue self df it (max_length self) of
        Inl e \<Rightarrow> Inl e
      | Inr sc \<Rightarrow>
          (case calc_loop self df items of
             Inl e \<Rightarrow> Inl e
           | Inr rows \<Rightarrow> Inr (\<lparr>item = it, trending_score = sc\<rparr> # rows)))"

text \<open>
  \<^verbatim>\<open>
  df_trend = pd.DataFrame(df_trend)
  df_trend = df_trend.sort_values("trending_score", ascending=False)
  return df_trend
  \<close>
  \<^verbatim>\<open>pd.DataFrame([])\<close> has no columns, and \<^verbatim>\<open>sort_values\<close> on a column the frame
  does not have raises \<^verbatim>\<open>KeyError\<close>.
\<close>

definition calc :: "trend \<Rightarrow> py_error + trend_row list" where
  "calc self =
     (case item_list self of
        None \<Rightarrow> Inl AttributeError
      | Some items \<Rightarrow>
          (case data self of
             None \<Rightarrow> Inl AttributeError
           | Some df \<Rightarrow>
               (case calc_loop self df items of
                  Inl e \<Rightarrow> Inl e
                | Inr rows \<Rightarrow>
                    if rows = [] then Inl KeyError else Inr (sort_values_desc rows))))"

text \<open>
  The pipeline of \<^verbatim>\<open>app\<close>, without the printing and the plot: \<^verbatim>\<open>trend(...)\<close>,
  \<^verbatim>\<open>load_data\<close>, \<^verbatim>\<open>calc\<close>. The decay, the interval and the table are arguments here
  (\<^verbatim>\<open>app\<close> fixes them to 0.1, 40 and \<^verbatim>\<open>transaction.csv\<close>); \<open>now\<close> is the reading of the
  wall clock during \<^verbatim>\<open>load_data\<close>.
\<close>

definition app :: "real \<Rightarrow> int \<Rightarrow> event list \<Rightarrow> int \<Rightarrow> py_error + trend_row list" where
  "app decay_arg interval_days csv now =
     (case trend_init decay_arg interval_days of
        Inl e \<Rightarrow> Inl e
      | Inr trend_obj \<Rightarrow>
          (case load_data trend_obj csv now of
             Inl e \<Rightarrow> Inl e
           | Inr loaded \<Rightarrow> calc loaded))"

text \<open>
  The reading of the specification, section 4.1: the number of distinct users among the
  events of an item that fall in a bucket.
\<close>

definition distinct_users :: "(event \<Rightarrow> int) \<Rightarrow> event list \<Rightarrow> nat \<Rightarrow> int \<Rightarrow> int" where
  "distinct_users diff df i l =
     int (length (remdups
       (concat (map (\<lambda>e. case user_id e of None \<Rightarrow> [] | Some u \<Rightarrow> [u])
                    (filter (\<lambda>e. item_id e = i \<and> diff e = l) df)))))"

section \<open>Properties of the arithmetic\<close>

subsection \<open>Rounding to an integer and to a binary64 value\<close>

lemma py_round_of_int: "py_round (of_int n) = n"
  by (simp add: py_round_def)




lemma pow2_powr: "pow2 e = 2 powr (of_int e)"
  by (simp add: pow2_def powr_int)

lemma pow2_pos: "0 < pow2 e"
  by (simp add: pow2_powr)

lemma pow2_add: "pow2 (a + b) = pow2 a * pow2 b"
  by (simp add: pow2_powr powr_add)

lemma pow2_nat: "pow2 (int n) = 2 ^ n"
  by (simp add: pow2_def)

lemma pow2_neg_nat: "pow2 (- int n) = 1 / 2 ^ n"
  by (simp add: pow2_powr powr_minus powr_realpow inverse_eq_divide)


lemma log2_floor_bounds:
  assumes "0 < x"
  shows "pow2 \<lfloor>log 2 x\<rfloor> \<le> x" and "x < pow2 (\<lfloor>log 2 x\<rfloor> + 1)"
proof -
  have "\<lfloor>log 2 x\<rfloor> = \<lfloor>log 2 x\<rfloor>" ..
  then have "2 powr (of_int \<lfloor>log 2 x\<rfloor>) \<le> x \<and> x < 2 powr (of_int (\<lfloor>log 2 x\<rfloor> + 1))"
    using assms by (subst (asm) floor_log_eq_powr_iff) simp_all
  then show "pow2 \<lfloor>log 2 x\<rfloor> \<le> x" and "x < pow2 (\<lfloor>log 2 x\<rfloor> + 1)"
    by (simp_all add: pow2_powr)
qed

lemma floor_log2_eq:
  assumes "pow2 k \<le> x" and "x < pow2 (k + 1)"
  shows "\<lfloor>log 2 x\<rfloor> = k"
proof -
  have "0 < x" using assms(1) pow2_pos[of k] by linarith
  then show ?thesis
    using assms by (subst floor_log_eq_powr_iff) (simp_all add: pow2_powr)
qed


lemma fl_zero: "fl 0 = 0"
  by (simp add: fl_def)

lemma quantum_exp_minus: "quantum_exp (- x) = quantum_exp x"
  by (simp add: quantum_exp_def)

lemma fl_minus: "fl (- x) = - fl x"
  by (simp add: fl_def quantum_exp_minus sgn_minus)

lemma fl_pos: "0 < x \<Longrightarrow> fl x = of_int (py_round (x / pow2 (quantum_exp x))) * pow2 (quantum_exp x)"
  by (simp add: fl_def)




lemma pow2_diff: "pow2 (a - b) = pow2 a / pow2 b"
  by (simp add: pow2_powr powr_diff)

lemma pow2_strict_mono_rev: "pow2 a < pow2 b \<Longrightarrow> a < b"
  by (simp add: pow2_powr)

lemma quantum_exp_eq:
  assumes "pow2 (e + 52) \<le> \<bar>x\<bar>" and "\<bar>x\<bar> < pow2 (e + 53)" and "- 1074 \<le> e"
  shows "quantum_exp x = e"
proof -
  have "\<lfloor>log 2 \<bar>x\<bar>\<rfloor> = e + 52"
    using assms(1,2) by (intro floor_log2_eq) (simp_all add: add.assoc)
  with assms(3) show ?thesis by (simp add: quantum_exp_def)
qed

text \<open>The value of \<open>fl\<close> at a positive number whose binade is known: scaled into
  \<open>[2\<^sup>5\<^sup>2, 2\<^sup>5\<^sup>3)\<close>, it is rounded to an integer.\<close>

lemma fl_eval_up:
  assumes "2 ^ 52 \<le> x * 2 ^ k" and "x * 2 ^ k < 2 ^ 53" and "k \<le> 1074"
  shows "fl x = of_int (py_round (x * 2 ^ k)) / 2 ^ k"
proof -
  have p: "pow2 (- int k) = 1 / 2 ^ k" by (rule pow2_neg_nat)
  have x: "0 < x"
  proof (rule ccontr)
    assume "\<not> 0 < x"
    then have "x * 2 ^ k \<le> 0" by (simp add: mult_nonpos_nonneg)
    with assms(1) show False by (smt (verit) zero_less_power)
  qed
  have "pow2 (- int k + 52) \<le> \<bar>x\<bar>"
    using assms(1) x pow2_nat[of 52] by (simp add: pow2_diff pow2_nat divide_le_eq)
  moreover have "\<bar>x\<bar> < pow2 (- int k + 53)"
    using assms(2) x pow2_nat[of 53] by (simp add: pow2_diff pow2_nat less_divide_eq)
  ultimately have "quantum_exp x = - int k"
    using assms(3) by (intro quantum_exp_eq) simp_all
  then show ?thesis using x by (simp add: fl_pos p)
qed


text \<open>A number with a significand below \<open>2\<^sup>5\<^sup>3\<close> and an exponent in range is a
  binary64 value: rounding leaves it as it is.\<close>

lemma fl_exact_pos:
  assumes "0 < m" and "m < 2 ^ 53" and "k \<le> 1074"
  shows "fl (of_int m / 2 ^ k) = of_int m / 2 ^ k"
proof -
  define x :: real where "x = of_int m / 2 ^ k"
  have x: "0 < x" using assms(1) by (simp add: x_def)
  define e where "e = quantum_exp x"
  have "of_int m < (2::real) ^ 53" using assms(2) by (simp flip: of_int_less_iff)
  then have "x < 2 ^ 53 / 2 ^ k" by (simp add: x_def divide_strict_right_mono)
  also have "\<dots> = pow2 (53 - int k)"
    using pow2_nat[of 53] by (simp add: pow2_diff pow2_nat)
  finally have "pow2 \<lfloor>log 2 x\<rfloor> < pow2 (53 - int k)"
    using log2_floor_bounds(1)[OF x] by linarith
  then have "\<lfloor>log 2 x\<rfloor> < 53 - int k" by (rule pow2_strict_mono_rev)
  with assms(3) x have e: "e \<le> - int k" by (simp add: e_def quantum_exp_def)
  define n where "n = nat (- int k - e)"
  have n: "int n = - int k - e" using e by (simp add: n_def)
  have "pow2 (- int k) = pow2 (int n) * pow2 e"
    by (simp add: n flip: pow2_add)
  then have k: "1 / 2 ^ k = 2 ^ n * pow2 e"
    by (simp add: pow2_neg_nat pow2_nat)
  have "x / pow2 e = of_int m * (2 ^ n * pow2 e) / pow2 e"
    by (simp add: x_def flip: k)
  also have "\<dots> = of_int (m * 2 ^ n)"
    using pow2_pos[of e] by simp
  finally have "py_round (x / pow2 e) = m * 2 ^ n"
    by (simp only: py_round_of_int)
  then have "fl x = of_int (m * 2 ^ n) * pow2 e"
    using x by (simp add: fl_pos flip: e_def)
  also have "\<dots> = of_int m * (2 ^ n * pow2 e)" by simp
  also have "\<dots> = x" by (simp add: x_def flip: k)
  finally show ?thesis by (simp add: x_def)
qed

lemma fl_exact:
  assumes "\<bar>m\<bar> < 2 ^ 53" and "k \<le> 1074"
  shows "fl (of_int m / 2 ^ k) = of_int m / 2 ^ k"
proof -
  consider "0 < m" | "m = 0" | "m < 0" by linarith
  then show ?thesis
  proof cases
    case 1
    with assms show ?thesis by (intro fl_exact_pos) simp_all
  next
    case 2
    then show ?thesis by (simp add: fl_zero)
  next
    case 3
    with assms have "fl (of_int (- m) / 2 ^ k) = of_int (- m) / 2 ^ k"
      by (intro fl_exact_pos) simp_all
    then show ?thesis by (simp add: fl_minus)
  qed
qed

lemma fl_one: "fl 1 = 1"
  using fl_exact[of 1 0] by simp

lemma fl_numeral: "(numeral n :: int) < 2 ^ 53 \<Longrightarrow> fl (numeral n) = numeral n"
  using fl_exact[of "numeral n" 0] by simp

lemma fl_half: "fl (1 / 2) = 1 / 2"
  using fl_exact[of 1 1] by simp

lemma fl_numeral_half: "(numeral n :: int) < 2 ^ 53 \<Longrightarrow> fl (numeral n / 2) = numeral n / 2"
  using fl_exact[of "numeral n" 1] by simp

lemma max_float_large: "2 ^ 53 \<le> max_float"
proof -
  have "(1::real) \<le> 2 ^ 53 - 1" by simp
  moreover have "(2::real) ^ 53 \<le> 2 ^ 971" by (rule power_increasing) simp_all
  ultimately have "1 * (2::real) ^ 53 \<le> (2 ^ 53 - 1) * 2 ^ 971"
    by (intro mult_mono) simp_all
  then show ?thesis by (simp add: max_float_def)
qed

lemma finite_or_small: "\<bar>fl x\<bar> \<le> 2 ^ 53 \<Longrightarrow> finite_or e x = Inr (fl x)"
  using max_float_large by (simp add: finite_or_def Let_def)

lemma bnd_Inr: "bnd (Inr x) f = f x"
  by (simp add: bnd_def)

lemma bnd_Inl: "bnd (Inl e) f = Inl e"
  by (simp add: bnd_def)

lemma bnd_eq_Inr: "bnd m f = Inr y \<longleftrightarrow> (\<exists>x. m = Inr x \<and> f x = Inr y)"
  by (cases m) (simp_all add: bnd_def)

lemma bnd_eq_Inl: "bnd m f = Inl e \<longleftrightarrow> m = Inl e \<or> (\<exists>x. m = Inr x \<and> f x = Inl e)"
  by (cases m) (simp_all add: bnd_def)

lemmas float_eval =
  bnd_Inr bnd_Inl py_float_def fadd_def fsub_def fmul_def fsquare_def py_truediv_def py_sqrt_def
  finite_or_small fl_zero fl_one fl_numeral fl_half fl_numeral_half fl_minus



lemma finite_or_eq: "fl x = y \<Longrightarrow> \<bar>y\<bar> \<le> 2 ^ 53 \<Longrightarrow> finite_or e x = Inr y"
  using finite_or_small[of x e] by simp


section \<open>Properties of the engine\<close>

subsection \<open>The loops\<close>

lemma absorb_append:
  "absorb d (xs @ ys) st = bnd (absorb d xs st) (absorb d ys)"
proof (induction xs arbitrary: st)
  case Nil
  show ?case by (simp add: bnd_Inr)
next
  case (Cons x xs)
  obtain a q where st: "st = (a, q)" by (cases st)
  show ?case
    by (cases "add_to_history d x a q") (simp_all add: st bnd_def Cons.IH)
qed

lemma score_window_length:
  "score_window d w st = Inr zs \<Longrightarrow> length zs = length w"
proof (induction w arbitrary: st zs)
  case Nil
  then show ?case by simp
next
  case (Cons p w)
  obtain a q where st: "st = (a, q)" by (cases st)
  from Cons.prems show ?case
    by (auto simp: st bnd_eq_Inr dest: Cons.IH)
qed

lemma score_window_nth:
  assumes "score_window d w st = Inr zs" and "i < length w"
  shows "\<exists>a q. absorb d (take i w) st = Inr (a, q) \<and>
               calculate_zscore a a q (w ! i) = Inr (zs ! i)"
  using assms
proof (induction w arbitrary: st zs i)
  case Nil
  then show ?case by simp
next
  case (Cons p w)
  obtain a q where st: "st = (a, q)" by (cases st)
  from Cons.prems(1) obtain z st' zs' where
    z: "calculate_zscore a a q p = Inr z" and
    step: "add_to_history d p a q = Inr st'" and
    rest: "score_window d w st' = Inr zs'" and
    zs: "zs = z # zs'"
    by (auto simp: st bnd_eq_Inr)
  show ?case
  proof (cases i)
    case 0
    with z show ?thesis by (simp add: st zs)
  next
    case (Suc j)
    with Cons.prems(2) have j: "j < length w" by simp
    from Cons.IH[OF rest j] show ?thesis
      by (simp add: Suc st zs step bnd_Inr)
  qed
qed

text \<open>What a successful call of \<open>calculate_zscore\<close> with the running mean in both places
  has computed.\<close>

lemma calculate_zscore_Inr:
  assumes "calculate_zscore a a q v = Inr z"
  shows "\<exists>a2 var. fsquare a = Inr a2 \<and> fsub q a2 = Inr var \<and> 0 \<le> var \<and>
           (if py_round (fl (sqrt var)) = 0 then
              bnd (py_float v) (\<lambda>value. fsub value a)
            else
              bnd (py_float v) (\<lambda>value.
              bnd (fsub value a) (\<lambda>diff.
              bnd (py_float (of_int (py_round (fl (sqrt var))))) (\<lambda>sd.
              py_truediv diff sd)))) = Inr z"
proof -
  from assms obtain a2 var s where
    a2: "fsquare a = Inr a2" and var: "fsub q a2 = Inr var" and s: "py_sqrt var = Inr s" and
    r: "(let std = py_round s
        in if std = 0 then bnd (py_float v) (\<lambda>value. fsub value a)
           else bnd (py_float v) (\<lambda>value.
                bnd (fsub value a) (\<lambda>diff.
                bnd (py_float (of_int std)) (\<lambda>sd. py_truediv diff sd)))) = Inr z"
    unfolding calculate_zscore_def bnd_eq_Inr by blast
  from s have nn: "0 \<le> var" and sv: "s = fl (sqrt var)"
    by (auto simp: py_sqrt_def split: if_splits)
  from r show ?thesis
    unfolding Let_def sv using a2 var nn by blast
qed

subsection \<open>C1: which mean the variance term subtracts\<close>

text \<open>
  C1 as the specification states it: every per-point \<open>std\<close> subtracts the square of
  \<open>history[0]\<close>, that is, \<open>trends\<close> and \<open>seed_trends\<close> agree. They do not: on the history
  \<open>[1, 3]\<close> with decay \<open>1/2\<close> (every operation is exact there) the running mean is 2 and
  the mean of squares 5, so the source computes \<open>std = round (sqrt (5 - 4)) = 1\<close> and scores
  the observed 4 as 2, where the seed reading gives \<open>std = round (sqrt (5 - 1)) = 2\<close> and
  the score 1.
\<close>

theorem seed_variance_counterexample:
  "trends [1, 3] [4] (1 / 2) = Inr [2] \<and> seed_trends [1, 3] [4] (1 / 2) = Inr [1]"
  by (simp add: trends_def seed_trends_def add_to_history_def calculate_zscore_def float_eval
      py_round_def)

text \<open>
  C1, amended: for a history \<open>d0 # rest\<close> and an observed window \<open>w\<close>, whenever
  \<^verbatim>\<open>rolling_zscore\<close> has built its list of z-scores, the z-score of the \<open>i\<close>-th observed
  point is computed from the running statistics \<open>(a, q)\<close> obtained by absorbing the rest of
  the history and the first \<open>i\<close> observed points into the seed \<open>(float(d0), float(d0\<^sup>2))\<close>:
  its variance term is \<open>q - a\<^sup>2\<close> in float arithmetic, not negative, its \<open>std\<close> is the
  rounded root of that term, and the score is \<open>w[i] - a\<close>, divided by \<open>std\<close> when \<open>std\<close> is not
  0. The subtracted term is the square of the current running mean \<open>a\<close>, the same value the
  score is centred on.
\<close>

theorem trends_std_uses_running_mean:
  assumes "trends (d0 # rest) w d = Inr zs" and "i < length w"
  shows "\<exists>seed sq0 a q a2 var.
           py_float d0 = Inr seed \<and> fsquare d0 = Inr sq0 \<and>
           absorb d (rest @ take i w) (seed, sq0) = Inr (a, q) \<and>
           fsquare a = Inr a2 \<and> fsub q a2 = Inr var \<and> 0 \<le> var \<and>
           (if py_round (fl (sqrt var)) = 0 then
              bnd (py_float (w ! i)) (\<lambda>value. fsub value a)
            else
              bnd (py_float (w ! i)) (\<lambda>value.
              bnd (fsub value a) (\<lambda>diff.
              bnd (py_float (of_int (py_round (fl (sqrt var))))) (\<lambda>sd.
              py_truediv diff sd)))) = Inr (zs ! i)"
proof -
  from assms(1) obtain seed sq0 st where
    seed: "py_float d0 = Inr seed" and sq0: "fsquare d0 = Inr sq0" and
    hist: "absorb d rest (seed, sq0) = Inr st" and
    win: "score_window d w st = Inr zs"
    unfolding trends_def list.case bnd_eq_Inr by blast
  from score_window_nth[OF win assms(2)] obtain a q where
    run: "absorb d (take i w) st = Inr (a, q)" and
    z: "calculate_zscore a a q (w ! i) = Inr (zs ! i)"
    by blast
  have "absorb d (rest @ take i w) (seed, sq0) = Inr (a, q)"
    by (simp add: absorb_append hist run bnd_Inr)
  with seed sq0 calculate_zscore_Inr[OF z] show ?thesis by blast
qed

theorem trends_std_uses_running_mean_witness:
  "trends (1 # [3]) [4] (1 / 2) = Inr [2] \<and>
   (\<exists>seed sq0 a q a2 var.
      py_float 1 = Inr seed \<and> fsquare 1 = Inr sq0 \<and>
      absorb (1 / 2) ([3] @ take 0 [4]) (seed, sq0) = Inr (a, q) \<and>
      a = 2 \<and> q = 5 \<and> fsquare a = Inr a2 \<and> fsub q a2 = Inr var \<and> var = 1 \<and>
      py_round (fl (sqrt var)) = 1)"
proof -
  have t: "trends (1 # [3]) [4] (1 / 2) = Inr [2]"
    by (simp add: trends_def add_to_history_def calculate_zscore_def float_eval py_round_def)
  have l: "(0::nat) < length [4::real]" by simp
  from trends_std_uses_running_mean[OF t l] obtain seed sq0 a q a2 var where
    f: "py_float 1 = Inr seed" "fsquare 1 = Inr sq0"
      "absorb (1 / 2) ([3] @ take 0 [4]) (seed, sq0) = Inr (a, q)"
      "fsquare a = Inr a2" "fsub q a2 = Inr var"
    by blast
  from f(1,2) have s: "seed = 1" "sq0 = 1" by (simp_all add: float_eval)
  from f(3) have aq: "a = 2" "q = 5"
    by (simp_all add: s add_to_history_def float_eval)
  from f(4) have a2: "a2 = 4" by (simp add: aq float_eval)
  from f(5) have var: "var = 1" by (simp add: aq a2 float_eval)
  have "py_round (fl (sqrt var)) = 1" by (simp add: var float_eval py_round_def)
  with t f aq var show ?thesis by blast
qed

subsection \<open>C7: the score of one observed value grows with the value\<close>












subsection \<open>The constant history 13 at the decay 0.1\<close>

text \<open>
  The run of \<^verbatim>\<open>rolling_zscore([13, 13], [13], decay=0.1)\<close>, operation by operation. The
  literal \<^verbatim>\<open>0.1\<close> is the binary64 value \<open>3602879701896397 / 2\<^sup>5\<^sup>5\<close>. The update of the mean
  rounds \<open>13 * 0.1\<close> up and \<open>13 * 0.9\<close> up, and their sum is the binary64 value next above
  13; the update of the mean of squares gives exactly 169; the square of the mean rounds to
  \<open>169 + 2\<^sup>-\<^sup>4\<^sup>4\<close>, and the argument of \<^verbatim>\<open>sqrt\<close> is \<open>- 2\<^sup>-\<^sup>4\<^sup>4\<close>.
\<close>

lemma c13_fl_d: "fl (1 / 10) = 3602879701896397 / 36028797018963968"
  using fl_eval_up[of "1 / 10" 56] by (simp add: py_round_def)

lemma c13_fl_t1: "fl (13 * (3602879701896397 / 36028797018963968)) = 5854679515581645 / 4503599627370496"
  using fl_eval_up[of "13 * (3602879701896397 / 36028797018963968)" 52] by (simp add: py_round_def)

lemma c13_fl_w: "fl (1 - (3602879701896397 / 36028797018963968)) = 8106479329266893 / 9007199254740992"
  using fl_eval_up[of "1 - (3602879701896397 / 36028797018963968)" 53] by (simp add: py_round_def)

lemma c13_fl_t2: "fl (13 * (8106479329266893 / 9007199254740992)) = 6586514455029351 / 562949953421312"
  using fl_eval_up[of "13 * (8106479329266893 / 9007199254740992)" 49] by (simp add: py_round_def)

lemma c13_fl_a: "fl ((5854679515581645 / 4503599627370496) + (6586514455029351 / 562949953421312)) = 7318349394477057 / 562949953421312"
  using fl_eval_up[of "(5854679515581645 / 4503599627370496) + (6586514455029351 / 562949953421312)" 49] by (simp add: py_round_def)

lemma c13_fl_s1: "fl (169 * (3602879701896397 / 36028797018963968)) = 4756927106410087 / 281474976710656"
  using fl_eval_up[of "169 * (3602879701896397 / 36028797018963968)" 48] by (simp add: py_round_def)

lemma c13_fl_s2: "fl (169 * (8106479329266893 / 9007199254740992)) = 5351542994711347 / 35184372088832"
  using fl_eval_up[of "169 * (8106479329266893 / 9007199254740992)" 45] by (simp add: py_round_def)

lemma c13_fl_q: "fl ((4756927106410087 / 281474976710656) + (5351542994711347 / 35184372088832)) = 169"
  using fl_eval_up[of "(4756927106410087 / 281474976710656) + (5351542994711347 / 35184372088832)" 45] by (simp add: py_round_def)

lemma c13_fl_a2: "fl ((7318349394477057 / 562949953421312) * (7318349394477057 / 562949953421312)) = 2973079441506305 / 17592186044416"
  using fl_eval_up[of "(7318349394477057 / 562949953421312) * (7318349394477057 / 562949953421312)" 45] by (simp add: py_round_def)

lemma c13_fl_var: "fl (169 - (2973079441506305 / 17592186044416)) = - (1 / 17592186044416)"
proof -
  have "fl ((2973079441506305 / 17592186044416) - 169) = 1 / 17592186044416"
    using fl_eval_up[of "(2973079441506305 / 17592186044416) - 169" 96] by (simp add: py_round_def)
  then have "fl (- ((2973079441506305 / 17592186044416) - 169)) = - (1 / 17592186044416)" by (simp only: fl_minus)
  then show ?thesis by simp
qed

lemma c13_d: "py_float (1 / 10) = Inr (3602879701896397 / 36028797018963968)"
  unfolding py_float_def by (rule finite_or_eq[OF c13_fl_d]) simp

lemma c13_t1: "fmul 13 (3602879701896397 / 36028797018963968) = Inr (5854679515581645 / 4503599627370496)"
  unfolding fmul_def by (rule finite_or_eq[OF c13_fl_t1]) simp

lemma c13_w: "fsub 1 (3602879701896397 / 36028797018963968) = Inr (8106479329266893 / 9007199254740992)"
  unfolding fsub_def by (rule finite_or_eq[OF c13_fl_w]) simp

lemma c13_t2: "fmul 13 (8106479329266893 / 9007199254740992) = Inr (6586514455029351 / 562949953421312)"
  unfolding fmul_def by (rule finite_or_eq[OF c13_fl_t2]) simp

lemma c13_a: "fadd (5854679515581645 / 4503599627370496) (6586514455029351 / 562949953421312) = Inr (7318349394477057 / 562949953421312)"
  unfolding fadd_def by (rule finite_or_eq[OF c13_fl_a]) simp

lemma c13_s1: "fmul 169 (3602879701896397 / 36028797018963968) = Inr (4756927106410087 / 281474976710656)"
  unfolding fmul_def by (rule finite_or_eq[OF c13_fl_s1]) simp

lemma c13_s2: "fmul 169 (8106479329266893 / 9007199254740992) = Inr (5351542994711347 / 35184372088832)"
  unfolding fmul_def by (rule finite_or_eq[OF c13_fl_s2]) simp

lemma c13_q: "fadd (4756927106410087 / 281474976710656) (5351542994711347 / 35184372088832) = Inr 169"
  unfolding fadd_def by (rule finite_or_eq[OF c13_fl_q]) simp

lemma c13_a2: "fsquare (7318349394477057 / 562949953421312) = Inr (2973079441506305 / 17592186044416)"
  unfolding fsquare_def by (rule finite_or_eq[OF c13_fl_a2]) simp

lemma c13_var: "fsub 169 (2973079441506305 / 17592186044416) = Inr (- (1 / 17592186044416))"
  unfolding fsub_def by (rule finite_or_eq[OF c13_fl_var]) simp

lemma c13_p: "py_float 13 = Inr 13" and c13_p2: "fsquare 13 = Inr 169"
  by (simp_all add: py_float_def fsquare_def finite_or_small fl_numeral)

lemma c13_step: "add_to_history (1 / 10) 13 13 169 = Inr (7318349394477057 / 562949953421312, 169)"
  by (simp only: add_to_history_def c13_d c13_t1 c13_w c13_p c13_t2 c13_a c13_s1 c13_p2 c13_s2
      c13_q bnd_Inr)

lemma c13_zscore: "calculate_zscore (7318349394477057 / 562949953421312) (7318349394477057 / 562949953421312) 169 v = Inl ValueError"
proof -
  have "py_sqrt (- (1 / 17592186044416)) = Inl ValueError" by (simp add: py_sqrt_def)
  then show ?thesis
    by (simp only: calculate_zscore_def c13_a2 c13_var bnd_Inr bnd_Inl)
qed

lemma c13_trends: "trends [13, 13] (v # w) (1 / 10) = Inl ValueError"
  by (simp only: trends_def list.case c13_p c13_p2 bnd_Inr bnd_Inl absorb.simps
      score_window.simps c13_step c13_zscore)

subsection \<open>C8: a constant history\<close>

text \<open>
  C8: with every point of the history equal to 13 and the default decay 0.1, the code does
  not do what the claim states. From the seed \<open>(13, 169)\<close> the second history point takes
  the running mean to the binary64 value next above 13, not to 13, while the mean of squares
  stays 169; the variance term is then negative, and scoring the observed value 13 raises
  \<^verbatim>\<open>ValueError\<close> where the claim says \<open>std\<close> rounds to 0 and the score is 0.
\<close>

theorem constant_history_13_not_constant:
  "py_float 13 = Inr 13 \<and> fsquare 13 = Inr 169 \<and>
   absorb (1 / 10) [13] (13, 169) = Inr (7318349394477057 / 562949953421312, 169) \<and>
   trends [13, 13] [13] (1 / 10) = Inl ValueError"
  by (simp only: c13_p c13_p2 absorb.simps c13_step bnd_Inr c13_trends simp_thms)

subsection \<open>C10: when \<^verbatim>\<open>rolling_zscore\<close> returns\<close>

text \<open>
  C10: \<^verbatim>\<open>rolling_zscore\<close> is not total on non-empty histories of non-negative values. With
  the history \<open>[13, 13]\<close> and the default decay 0.1 the argument of \<^verbatim>\<open>sqrt\<close> is negative
  (\<open>- 1 / 17592186044416\<close>, about \<open>- 5.7e-14\<close>), and the call raises \<^verbatim>\<open>ValueError\<close> for every
  non-empty observed window; so does \<^verbatim>\<open>zvalue\<close> for an item counted 13 times in each of
  three buckets.
\<close>

theorem rolling_zscore_raises_at_default_decay:
  "rolling_zscore [13, 13] (v # w) (1 / 10) = Inl ValueError \<and>
   zvalue \<lparr>max_length = IntLen 2, decay = 1 / 10, int_days = 7, item_list = Some [1],
           data = Some [\<lparr>g_item_id = 1, lag = - 2, user_count = 13\<rparr>,
                        \<lparr>g_item_id = 1, lag = - 1, user_count = 13\<rparr>,
                        \<lparr>g_item_id = 1, lag = 0, user_count = 13\<rparr>]\<rparr>
     [\<lparr>g_item_id = 1, lag = - 2, user_count = 13\<rparr>,
      \<lparr>g_item_id = 1, lag = - 1, user_count = 13\<rparr>,
      \<lparr>g_item_id = 1, lag = 0, user_count = 13\<rparr>] 1 (IntLen 2) = Inl ValueError"
proof -
  have r: "rolling_zscore [13, 13] (x # xs) (1 / 10) = Inl ValueError" for x xs
    by (simp only: rolling_zscore_def c13_trends bnd_Inl)
  then show ?thesis
    by (simp add: zvalue_def lag_vector_def py_setitem_def last_slice_def eval_nat_numeral
        bnd_def)
qed

section \<open>Properties of the pipeline\<close>

subsection \<open>The aggregated table\<close>

lemma groupby_count_keys:
  "map (\<lambda>r. (g_item_id r, lag r)) (groupby_count diff df) =
     sort (remdups (map (\<lambda>e. (item_id e, diff e)) df))"
  by (simp add: groupby_count_def comp_def case_prod_beta)

lemma groupby_count_row:
  assumes "r \<in> set (groupby_count diff df)"
  shows "(\<exists>e\<in>set df. g_item_id r = item_id e \<and> lag r = diff e) \<and>
         user_count r =
           int (length (filter (\<lambda>e. item_id e = g_item_id r \<and> diff e = lag r \<and> user_id e \<noteq> None) df))"
  using assms by (auto simp: groupby_count_def)

lemma length_filter_sort_key:
  "length (filter P (sort_key f xs)) = length (filter P xs)"
  by (simp add: filter_sort)

lemma sort_key_Nil_iff: "sort_key f xs = [] \<longleftrightarrow> xs = []"
proof
  assume "sort_key f xs = []"
  then have "length (sort_key f xs) = 0" by simp
  then show "xs = []" by simp
qed simp

lemma load_data_Inr:
  assumes "load_data self csv now = Inr st"
  shows "st = self\<lparr>max_length :=
                    (if csv = [] then NaN
                     else IntLen (- Min (diff_of now (int_days self) ` set csv))),
                  item_list := Some (unique (map g_item_id
                    (groupby_count (diff_of now (int_days self)) (sort_key interaction_time csv)))),
                  data := Some (groupby_count (diff_of now (int_days self))
                                  (sort_key interaction_time csv))\<rparr>"
    and "csv \<noteq> [] \<Longrightarrow> int_days self \<noteq> 0"
proof -
  from assms have ok: "\<not> (sort_key interaction_time csv \<noteq> [] \<and> int_days self = 0)"
    by (auto simp: load_data_def Let_def split: if_splits)
  from assms ok
  have "st = self\<lparr>max_length :=
                    (if sort_key interaction_time csv = [] then NaN
                     else IntLen (- Min (set (map (diff_of now (int_days self))
                                                  (sort_key interaction_time csv))))),
                  item_list := Some (unique (map g_item_id
                    (groupby_count (diff_of now (int_days self)) (sort_key interaction_time csv)))),
                  data := Some (groupby_count (diff_of now (int_days self))
                                  (sort_key interaction_time csv))\<rparr>"
    unfolding load_data_def Let_def by (simp only: if_False sum.inject)
  then show "st = self\<lparr>max_length :=
                    (if csv = [] then NaN
                     else IntLen (- Min (diff_of now (int_days self) ` set csv))),
                  item_list := Some (unique (map g_item_id
                    (groupby_count (diff_of now (int_days self)) (sort_key interaction_time csv)))),
                  data := Some (groupby_count (diff_of now (int_days self))
                                  (sort_key interaction_time csv))\<rparr>"
    by (simp only: sort_key_Nil_iff set_map set_sort)
  show "int_days self \<noteq> 0" if "csv \<noteq> []"
    using ok that by (simp add: sort_key_Nil_iff)
qed


text \<open>A run of the pipeline: item 1 is seen in the buckets \<open>- 1\<close> and 0, item 2 in the
  bucket 0 only.\<close>

lemma sample_load:
  "load_data \<lparr>max_length = PyNone, decay = 1 / 2, int_days = 7, item_list = None, data = None\<rparr>
     [\<lparr>item_id = 1, user_id = Some 5, interaction_time = - 604800\<rparr>,
      \<lparr>item_id = 1, user_id = Some 6, interaction_time = 0\<rparr>,
      \<lparr>item_id = 2, user_id = Some 5, interaction_time = 0\<rparr>] 0 =
   Inr \<lparr>max_length = IntLen 1, decay = 1 / 2, int_days = 7, item_list = Some [1, 2],
        data = Some [\<lparr>g_item_id = 1, lag = - 1, user_count = 1\<rparr>,
                     \<lparr>g_item_id = 1, lag = 0, user_count = 1\<rparr>,
                     \<lparr>g_item_id = 2, lag = 0, user_count = 1\<rparr>]\<rparr>"
  by (simp add: load_data_def groupby_count_def diff_of_def days_since_def trunc_div_def
      unique_def)


subsection \<open>C2: what \<^verbatim>\<open>user_count\<close> counts\<close>

text \<open>
  C2 as the specification states it: the value stored for a pair (item, bucket) is the
  number of distinct users of the group. Two events of user 5 on item 1 in the same bucket
  give the aggregated row \<open>user_count = 2\<close>, where the number of distinct users is 1:
  \<^verbatim>\<open>count()\<close> counts rows.
\<close>

theorem distinct_users_counterexample:
  "load_data \<lparr>max_length = PyNone, decay = 1 / 10, int_days = 7, item_list = None, data = None\<rparr>
     [\<lparr>item_id = 1, user_id = Some 5, interaction_time = 0\<rparr>,
      \<lparr>item_id = 1, user_id = Some 5, interaction_time = 0\<rparr>] 0 =
   Inr \<lparr>max_length = IntLen 0, decay = 1 / 10, int_days = 7, item_list = Some [1],
        data = Some [\<lparr>g_item_id = 1, lag = 0, user_count = 2\<rparr>]\<rparr> \<and>
   distinct_users (diff_of 0 7)
     [\<lparr>item_id = 1, user_id = Some 5, interaction_time = 0\<rparr>,
      \<lparr>item_id = 1, user_id = Some 5, interaction_time = 0\<rparr>] 1 0 = 1"
  by (simp add: load_data_def groupby_count_def diff_of_def days_since_def trunc_div_def
      unique_def distinct_users_def)

text \<open>
  C2, amended: after \<^verbatim>\<open>load_data\<close> the aggregated table has exactly one row for each pair
  (item, bucket) that occurs in the event log, and its \<open>user_count\<close> is the number of events
  of that item in that bucket whose \<^verbatim>\<open>user_id\<close> is present: every event counts, also a
  repeated one of the same user.
\<close>

theorem user_count_is_event_count:
  assumes "load_data self csv now = Inr st"
  shows "\<exists>rows. data st = Some rows \<and>
           distinct (map (\<lambda>r. (g_item_id r, lag r)) rows) \<and>
           set (map (\<lambda>r. (g_item_id r, lag r)) rows) =
             (\<lambda>e. (item_id e, diff_of now (int_days self) e)) ` set csv \<and>
           (\<forall>r\<in>set rows.
              user_count r =
                int (length (filter (\<lambda>e. item_id e = g_item_id r \<and>
                                         diff_of now (int_days self) e = lag r \<and>
                                         user_id e \<noteq> None) csv)))"
proof -
  let ?rows = "groupby_count (diff_of now (int_days self)) (sort_key interaction_time csv)"
  have d: "data st = Some ?rows"
    by (subst load_data_Inr(1)[OF assms]) simp
  have "distinct (map (\<lambda>r. (g_item_id r, lag r)) ?rows)"
    by (simp add: groupby_count_keys)
  moreover have "set (map (\<lambda>r. (g_item_id r, lag r)) ?rows) =
             (\<lambda>e. (item_id e, diff_of now (int_days self) e)) ` set csv"
    by (simp only: groupby_count_keys) simp
  moreover have "\<forall>r\<in>set ?rows.
              user_count r =
                int (length (filter (\<lambda>e. item_id e = g_item_id r \<and>
                                         diff_of now (int_days self) e = lag r \<and>
                                         user_id e \<noteq> None) csv))"
    using groupby_count_row[of _ "diff_of now (int_days self)" "sort_key interaction_time csv"]
    by (simp add: length_filter_sort_key)
  ultimately show ?thesis using d by blast
qed

text \<open>Three events of item 1 in one bucket, two of user 5 and one with no user: the
  count is 2.\<close>

theorem user_count_is_event_count_witness:
  "\<exists>st rows.
     load_data \<lparr>max_length = PyNone, decay = 1 / 10, int_days = 7, item_list = None, data = None\<rparr>
       [\<lparr>item_id = 1, user_id = Some 5, interaction_time = 0\<rparr>,
        \<lparr>item_id = 1, user_id = Some 5, interaction_time = 0\<rparr>,
        \<lparr>item_id = 1, user_id = None, interaction_time = 0\<rparr>] 0 = Inr st \<and>
     data st = Some rows \<and>
     rows = [\<lparr>g_item_id = 1, lag = 0, user_count = 2\<rparr>] \<and>
     (\<forall>r\<in>set rows.
        user_count r =
          int (length (filter (\<lambda>e. item_id e = g_item_id r \<and> diff_of 0 7 e = lag r \<and>
                                   user_id e \<noteq> None)
            [\<lparr>item_id = 1, user_id = Some 5, interaction_time = 0\<rparr>,
             \<lparr>item_id = 1, user_id = Some 5, interaction_time = 0\<rparr>,
             \<lparr>item_id = 1, user_id = None, interaction_time = 0\<rparr>])))"
proof -
  have l: "load_data \<lparr>max_length = PyNone, decay = 1 / 10, int_days = 7, item_list = None, data = None\<rparr>
       [\<lparr>item_id = 1, user_id = Some 5, interaction_time = 0\<rparr>,
        \<lparr>item_id = 1, user_id = Some 5, interaction_time = 0\<rparr>,
        \<lparr>item_id = 1, user_id = None, interaction_time = 0\<rparr>] 0 =
     Inr \<lparr>max_length = IntLen 0, decay = 1 / 10, int_days = 7, item_list = Some [1],
          data = Some [\<lparr>g_item_id = 1, lag = 0, user_count = 2\<rparr>]\<rparr>"
    by (simp add: load_data_def groupby_count_def diff_of_def days_since_def trunc_div_def
        unique_def)
  from user_count_is_event_count[OF l] l show ?thesis
    by simp
qed

subsection \<open>C3: the sentinel score and its rank\<close>












subsection \<open>C4: the empty event table\<close>

text \<open>
  C4: on an empty event table the pipeline does not return an empty trending table. For
  every decay, interval and clock reading, \<^verbatim>\<open>load_data\<close> succeeds with an empty item list,
  the loop of \<^verbatim>\<open>calc\<close> appends nothing, \<^verbatim>\<open>pd.DataFrame([])\<close> has no column
  \<^verbatim>\<open>trending_score\<close>, and \<^verbatim>\<open>sort_values\<close> raises \<^verbatim>\<open>KeyError\<close>.
\<close>

theorem empty_dataset_raises: "app d n [] now = Inl KeyError"
  by (simp add: app_def trend_init_def load_data_def groupby_count_def unique_def calc_def)

subsection \<open>C5: the reference instant\<close>

text \<open>
  C5 as the specification states it: the output does not depend on when the pipeline runs.
  \<^verbatim>\<open>load_data\<close> takes no reference instant; it reads the wall clock. The same table, decay
  and interval give item 1 the score 0 when the clock shows day 0 and the score \<open>- 1\<close> when
  it shows day 7: the two events of item 1 then fall in the buckets \<open>- 2\<close> and \<open>- 1\<close> and
  the observed bucket is empty.
\<close>

theorem wall_clock_counterexample:
  "app (1 / 2) 7
     [\<lparr>item_id = 1, user_id = Some 5, interaction_time = - 604800\<rparr>,
      \<lparr>item_id = 1, user_id = Some 6, interaction_time = 0\<rparr>] 0 =
     Inr [\<lparr>item = 1, trending_score = Fin 0\<rparr>] \<and>
   app (1 / 2) 7
     [\<lparr>item_id = 1, user_id = Some 5, interaction_time = - 604800\<rparr>,
      \<lparr>item_id = 1, user_id = Some 6, interaction_time = 0\<rparr>] 604800 =
     Inr [\<lparr>item = 1, trending_score = Fin (- 1)\<rparr>]"
  by (simp add: app_def trend_init_def load_data_def groupby_count_def diff_of_def
      days_since_def trunc_div_def unique_def calc_def zvalue_def lag_vector_def py_setitem_def
      sort_values_desc_def last_slice_def rolling_zscore_def trends_def add_to_history_def
      calculate_zscore_def float_eval py_round_def eval_nat_numeral)

text \<open>
  C5, amended: the reference instant is the date the wall clock shows when \<^verbatim>\<open>load_data\<close>
  runs. The result of the pipeline is a function of the input table, the decay, the interval
  and that date: two runs on the same table, decay and interval during the same day (clock
  readings with the same date) give the same result.
\<close>

theorem same_date_same_table:
  assumes "now1 div 86400 = now2 div 86400"
  shows "app d n csv now1 = app d n csv now2"
proof -
  have "days_since now1 = days_since now2"
    using assms by (simp add: days_since_def fun_eq_iff)
  then have "diff_of now1 = diff_of now2"
    by (simp add: diff_of_def fun_eq_iff)
  then have "load_data obj csv now1 = load_data obj csv now2" for obj
    unfolding load_data_def by (simp only:)
  then show ?thesis
    by (simp add: app_def trend_init_def)
qed

theorem same_date_same_table_witness:
  "(0::int) div 86400 = 3600 div 86400 \<and>
   app (1 / 2) 7
     [\<lparr>item_id = 1, user_id = Some 5, interaction_time = - 604800\<rparr>,
      \<lparr>item_id = 1, user_id = Some 6, interaction_time = 0\<rparr>] 0 =
   app (1 / 2) 7
     [\<lparr>item_id = 1, user_id = Some 5, interaction_time = - 604800\<rparr>,
      \<lparr>item_id = 1, user_id = Some 6, interaction_time = 0\<rparr>] 3600"
  using same_date_same_table[of 0 3600] by simp

subsection \<open>C6: the bucket indices and the dense vector\<close>

text \<open>
  C6 as the specification states it: every bucket index is at most 0 and every write lands
  in bounds, also with events after the reference instant. An event seven days after the
  day of the clock, with the interval 7, has the bucket index 1; with \<open>max_length = 1\<close> its
  write goes to position 2 of a vector of length 2, and \<^verbatim>\<open>zvalue\<close> raises \<^verbatim>\<open>IndexError\<close>.
\<close>

theorem future_event_counterexample:
  "diff_of 0 7 \<lparr>item_id = 1, user_id = Some 6, interaction_time = 604800\<rparr> = 1 \<and>
   load_data \<lparr>max_length = PyNone, decay = 1 / 2, int_days = 7, item_list = None, data = None\<rparr>
     [\<lparr>item_id = 1, user_id = Some 5, interaction_time = - 604800\<rparr>,
      \<lparr>item_id = 1, user_id = Some 6, interaction_time = 604800\<rparr>] 0 =
   Inr \<lparr>max_length = IntLen 1, decay = 1 / 2, int_days = 7, item_list = Some [1],
        data = Some [\<lparr>g_item_id = 1, lag = - 1, user_count = 1\<rparr>,
                     \<lparr>g_item_id = 1, lag = 1, user_count = 1\<rparr>]\<rparr> \<and>
   lag_vector 1 [\<lparr>g_item_id = 1, lag = - 1, user_count = 1\<rparr>,
                 \<lparr>g_item_id = 1, lag = 1, user_count = 1\<rparr>] = Inl IndexError \<and>
   app (1 / 2) 7
     [\<lparr>item_id = 1, user_id = Some 5, interaction_time = - 604800\<rparr>,
      \<lparr>item_id = 1, user_id = Some 6, interaction_time = 604800\<rparr>] 0 = Inl IndexError"
  by (simp add: app_def trend_init_def load_data_def groupby_count_def diff_of_def
      days_since_def trunc_div_def unique_def calc_def zvalue_def lag_vector_def py_setitem_def
      eval_nat_numeral)

lemma trunc_div_nonpos:
  assumes "0 < n" and "x < n"
  shows "trunc_div x n \<le> 0"
proof (cases "x \<le> 0")
  case True
  then have "sgn x \<le> 0" by (simp add: sgn_if)
  moreover have "0 \<le> \<bar>x\<bar> div \<bar>n\<bar>" using assms(1) by (simp add: div_int_pos_iff)
  ultimately have "sgn x * (\<bar>x\<bar> div \<bar>n\<bar>) \<le> 0" by (rule mult_nonpos_nonneg)
  with assms(1) show ?thesis by (simp add: trunc_div_def)
next
  case False
  with assms have "\<bar>x\<bar> div \<bar>n\<bar> = 0" by simp
  then show ?thesis by (simp add: trunc_div_def)
qed

lemma py_setitem_in_range:
  "0 \<le> i \<Longrightarrow> i < int (length xs) \<Longrightarrow> py_setitem xs i x = Inr (xs[nat i := x])"
  by (simp add: py_setitem_def)

lemma fill_in_range:
  assumes "\<forall>p\<in>set ps. 0 \<le> fst p \<and> fst p < int (length vec)"
  shows "\<exists>vec'. fill vec ps = Inr vec' \<and> length vec' = length vec \<and>
           (\<forall>k. k \<notin> nat ` fst ` set ps \<longrightarrow> vec' ! k = vec ! k) \<and>
           (distinct (map fst ps) \<longrightarrow> (\<forall>p\<in>set ps. vec' ! nat (fst p) = snd p))"
  using assms
proof (induction ps arbitrary: vec)
  case Nil
  show ?case by simp
next
  case (Cons p ps)
  obtain i x where p: "p = (i, x)" by (cases p)
  from Cons.prems have i: "0 \<le> i" "i < int (length vec)" by (simp_all add: p)
  let ?v = "vec[nat i := x]"
  from Cons.prems have "\<forall>p\<in>set ps. 0 \<le> fst p \<and> fst p < int (length ?v)" by simp
  from Cons.IH[OF this] obtain vec' where
    f: "fill ?v ps = Inr vec'" and len: "length vec' = length vec" and
    other: "\<And>k. k \<notin> nat ` fst ` set ps \<Longrightarrow> vec' ! k = ?v ! k" and
    hit: "distinct (map fst ps) \<Longrightarrow> (\<forall>p\<in>set ps. vec' ! nat (fst p) = snd p)"
    by auto
  have 1: "fill vec (p # ps) = Inr vec'"
    by (simp add: p py_setitem_in_range i f)
  have 2: "vec' ! k = vec ! k" if "k \<notin> nat ` fst ` set (p # ps)" for k
  proof -
    from that have "k \<noteq> nat i" "k \<notin> nat ` fst ` set ps" by (auto simp: p)
    then show ?thesis using other by simp
  qed
  have 3: "\<forall>q\<in>set (p # ps). vec' ! nat (fst q) = snd q" if dist: "distinct (map fst (p # ps))"
  proof -
    from dist have ni: "i \<notin> fst ` set ps" and d: "distinct (map fst ps)" by (auto simp: p)
    have "nat i \<notin> nat ` fst ` set ps"
    proof
      assume "nat i \<in> nat ` fst ` set ps"
      then obtain q where q: "q \<in> set ps" "nat i = nat (fst q)" by auto
      with Cons.prems i have "i = fst q" by auto
      with q ni show False by auto
    qed
    then have "vec' ! nat i = ?v ! nat i" by (rule other)
    also have "\<dots> = x" using i by simp
    finally show ?thesis using hit[OF d] by (simp add: p)
  qed
  from 1 2 3 len show ?case by blast
qed

text \<open>
  C6, amended: for a non-empty event log, when the interval is positive and every event is
  less than one interval (in whole days) after the day of the clock, every bucket index is
  at most 0, \<open>max_length\<close> is
  a non-negative integer, every position \<open>max_length + lag\<close> lies in
  \<open>0 .. max_length\<close>, and for every item the dense vector is built without error, has length
  \<open>max_length + 1\<close> and holds each count of the item at position \<open>max_length + lag\<close>.
\<close>

theorem dense_vector_in_bounds:
  assumes "load_data self csv now = Inr st" and "csv \<noteq> []" and "0 < int_days self"
    and "\<forall>e\<in>set csv. days_since now (interaction_time e) < int_days self"
  shows "\<exists>m rows. max_length st = IntLen m \<and> 0 \<le> m \<and> data st = Some rows \<and>
           (\<forall>r\<in>set rows. lag r \<le> 0 \<and> 0 \<le> m + lag r \<and> m + lag r < m + 1) \<and>
           (\<forall>it. \<exists>vec. lag_vector m (filter (\<lambda>r. g_item_id r = it) rows) = Inr vec \<and>
                   int (length vec) = m + 1 \<and>
                   (\<forall>r\<in>set rows. g_item_id r = it \<longrightarrow> vec ! nat (m + lag r) = user_count r))"
proof -
  let ?diff = "diff_of now (int_days self)"
  define rows where "rows = groupby_count ?diff (sort_key interaction_time csv)"
  define m where "m = - Min (?diff ` set csv)"
  have d: "data st = Some rows" and ml: "max_length st = IntLen m"
    unfolding rows_def m_def using assms(2)
    by (subst load_data_Inr(1)[OF assms(1)], simp)+
  have fin: "finite (?diff ` set csv)" and ne: "?diff ` set csv \<noteq> {}"
    using assms(2) by simp_all
  have nonpos: "?diff e \<le> 0" if "e \<in> set csv" for e
    using assms(3,4) that by (simp add: diff_of_def trunc_div_nonpos)
  have "Min (?diff ` set csv) \<in> ?diff ` set csv"
    using fin ne by (rule Min_in)
  with nonpos have m0: "0 \<le> m" by (auto simp: m_def)
  have lag: "lag r \<le> 0 \<and> 0 \<le> m + lag r \<and> m + lag r < m + 1" if "r \<in> set rows" for r
  proof -
    from groupby_count_row[OF that[unfolded rows_def]] obtain e where
      e: "e \<in> set csv" "lag r = ?diff e" by auto
    then have "Min (?diff ` set csv) \<le> lag r" using fin by simp
    with nonpos[OF e(1)] e(2) show ?thesis by (simp add: m_def)
  qed
  have vec: "\<exists>vec. lag_vector m (filter (\<lambda>r. g_item_id r = it) rows) = Inr vec \<and>
                   int (length vec) = m + 1 \<and>
                   (\<forall>r\<in>set rows. g_item_id r = it \<longrightarrow> vec ! nat (m + lag r) = user_count r)"
    for it
  proof -
    define f where "f = filter (\<lambda>r. g_item_id r = it) rows"
    define ps where "ps = zip (map (\<lambda>r. m + lag r) f) (map user_count f)"
    define vec0 where "vec0 = replicate (nat (m + 1)) (0::int)"
    have ps: "ps = map (\<lambda>r. (m + lag r, user_count r)) f"
      by (simp add: ps_def zip_map_map zip_same_conv_map)
    have len0: "int (length vec0) = m + 1" using m0 by (simp add: vec0_def)
    have "\<forall>p\<in>set ps. 0 \<le> fst p \<and> fst p < int (length vec0)"
    proof
      fix p
      assume "p \<in> set ps"
      then obtain r where r: "r \<in> set f" and p: "p = (m + lag r, user_count r)"
        by (auto simp: ps)
      from r have "r \<in> set rows" by (simp add: f_def)
      from lag[OF this] show "0 \<le> fst p \<and> fst p < int (length vec0)"
        by (simp add: p len0)
    qed
    from fill_in_range[OF this] obtain vec where
      fl: "fill vec0 ps = Inr vec" and len: "length vec = length vec0" and
      hit: "distinct (map fst ps) \<Longrightarrow> (\<forall>p\<in>set ps. vec ! nat (fst p) = snd p)"
      by blast
    have "distinct (map (\<lambda>r. (g_item_id r, lag r)) rows)"
      by (simp add: rows_def groupby_count_keys)
    then have "distinct (map (\<lambda>r. (g_item_id r, lag r)) f)"
      unfolding f_def by (rule distinct_map_filter)
    then have "distinct (map lag f)"
      by (auto simp: distinct_map inj_on_def f_def)
    then have "distinct (map fst ps)"
      by (simp add: ps comp_def distinct_map inj_on_def)
    from hit[OF this]
    have "\<forall>r\<in>set rows. g_item_id r = it \<longrightarrow> vec ! nat (m + lag r) = user_count r"
      by (auto simp: ps f_def)
    moreover have "int (length vec) = m + 1" using len len0 by simp
    moreover have "lag_vector m (filter (\<lambda>r. g_item_id r = it) rows) = Inr vec"
      using fl by (simp add: lag_vector_def Let_def f_def ps_def vec0_def)
    ultimately show ?thesis by blast
  qed
  from d ml m0 lag vec show ?thesis by blast
qed

theorem dense_vector_in_bounds_witness:
  "\<exists>st.
     load_data \<lparr>max_length = PyNone, decay = 1 / 2, int_days = 7, item_list = None, data = None\<rparr>
       [\<lparr>item_id = 1, user_id = Some 5, interaction_time = - 604800\<rparr>,
        \<lparr>item_id = 1, user_id = Some 6, interaction_time = 0\<rparr>,
        \<lparr>item_id = 2, user_id = Some 5, interaction_time = 0\<rparr>] 0 = Inr st \<and>
     max_length st = IntLen 1 \<and>
     (\<exists>m rows. max_length st = IntLen m \<and> 0 \<le> m \<and> data st = Some rows \<and>
           (\<forall>r\<in>set rows. lag r \<le> 0 \<and> 0 \<le> m + lag r \<and> m + lag r < m + 1) \<and>
           (\<forall>it. \<exists>vec. lag_vector m (filter (\<lambda>r. g_item_id r = it) rows) = Inr vec \<and>
                   int (length vec) = m + 1 \<and>
                   (\<forall>r\<in>set rows. g_item_id r = it \<longrightarrow> vec ! nat (m + lag r) = user_count r)))"
proof -
  let ?st = "\<lparr>max_length = IntLen 1, decay = 1 / 2, int_days = 7, item_list = Some [1, 2],
        data = Some [\<lparr>g_item_id = 1, lag = - 1, user_count = 1\<rparr>,
                     \<lparr>g_item_id = 1, lag = 0, user_count = 1\<rparr>,
                     \<lparr>g_item_id = 2, lag = 0, user_count = 1\<rparr>]\<rparr>"
  note l = sample_load
  have ne: "[\<lparr>item_id = 1, user_id = Some 5, interaction_time = - 604800\<rparr>,
        \<lparr>item_id = 1, user_id = Some 6, interaction_time = 0\<rparr>,
        \<lparr>item_id = 2, user_id = Some (5::nat), interaction_time = 0\<rparr>] \<noteq> []" by simp
  have pos: "0 < int_days \<lparr>max_length = PyNone, decay = 1 / 2, int_days = 7, item_list = None, data = None\<rparr>"
    by simp
  have h: "\<forall>e\<in>set [\<lparr>item_id = 1, user_id = Some 5, interaction_time = - 604800\<rparr>,
        \<lparr>item_id = 1, user_id = Some 6, interaction_time = 0\<rparr>,
        \<lparr>item_id = 2, user_id = Some 5, interaction_time = 0\<rparr>].
       days_since 0 (interaction_time e) <
         int_days \<lparr>max_length = PyNone, decay = 1 / 2, int_days = 7, item_list = None, data = None\<rparr>"
    by (simp add: days_since_def)
  note s = dense_vector_in_bounds[OF l ne pos h]
  have m: "max_length ?st = IntLen 1" by simp
  show ?thesis
    apply (rule exI[of _ ?st])
    apply (intro conjI)
      apply (rule l)
     apply (rule m)
    apply (rule s)
    done
qed

subsection \<open>C9: the constructor and the decay\<close>

text \<open>
  C9 as the specification states it: a decay outside \<open>(0, 1)\<close> makes the construction fail.
  The constructions with the decay 2 and with the decay 0 both return an object.
\<close>

theorem trend_init_counterexample:
  "trend_init 2 7 =
     Inr \<lparr>max_length = PyNone, decay = 2, int_days = 7, item_list = None, data = None\<rparr> \<and>
   trend_init 0 7 =
     Inr \<lparr>max_length = PyNone, decay = 0, int_days = 7, item_list = None, data = None\<rparr>"
  by (simp add: trend_init_def)

text \<open>
  C9, amended: the constructor accepts every decay value, whether inside the open interval
  \<open>(0, 1)\<close> or not: it returns an object that stores the decay and the interval it was
  given, unchanged, with \<open>max_length\<close> unset. No range check is made.
\<close>

theorem trend_init_accepts_any_decay:
  "\<exists>obj. trend_init d n = Inr obj \<and> decay obj = d \<and> int_days obj = n \<and>
         max_length obj = PyNone"
  by (simp add: trend_init_def)

end
